theory Spec2Isabelle
  imports Main "HOL-Library.Word"
begin

section \<open>kubectl-head: the paginated listing engine of \<^verbatim>\<open>pkg/head/head.go\<close>\<close>

text \<open>
  The development embeds \<^verbatim>\<open>Validate\<close>, \<^verbatim>\<open>GetResourceGVR\<close>, \<^verbatim>\<open>NewRestClient\<close> and
  \<^verbatim>\<open>Run\<close> of \<^verbatim>\<open>pkg/head/head.go\<close>. Go strings are byte sequences (\<^typ>\<open>string\<close>),
  \<^verbatim>\<open>int64\<close> is a signed 64-bit word, a pointer that may be \<^verbatim>\<open>nil\<close> is an
  \<^typ>\<open>'a option\<close>, and a function returning \<^verbatim>\<open>(value, error)\<close> returns a sum with the
  error on the left.
\<close>

subsection \<open>Errors and results\<close>

text \<open>
  \<^verbatim>\<open>fmt.Errorf\<close> builds an error from a format and its arguments; the errors of the
  collaborators (REST mapper, REST client, table printer, standard input) are opaque.
\<close>

datatype error = Errorf string "string list" | CollaboratorError string

text \<open>
  What a method with result type \<^verbatim>\<open>error\<close> does: it returns \<^verbatim>\<open>nil\<close>, returns an
  error, or panics on a \<^verbatim>\<open>nil\<close> pointer.
\<close>

datatype outcome = Success | Failure error | NilPointerPanic

subsection \<open>Data\<close>

text \<open>
  \<^verbatim>\<open>int64\<close> and \<^verbatim>\<open>rune\<close> (an \<^verbatim>\<open>int32\<close>) are words read as signed numbers
  by \<^const>\<open>sint\<close>.
\<close>

type_synonym int64 = "64 word"
type_synonym rune = "32 word"

record GroupVersion =
  gv_Group :: string
  gv_Version :: string

record GroupVersionResource =
  gvr_Group :: string
  gvr_Version :: string
  gvr_Resource :: string

text \<open>\<^verbatim>\<open>genericclioptions.PrintFlags\<close>: only \<^verbatim>\<open>OutputFormat *string\<close> is read.\<close>

record PrintFlags =
  OutputFormat :: "string option"

datatype serializer = WithoutConversion | OtherSerializer string

text \<open>
  \<^verbatim>\<open>rest.Config\<close>: the four fields \<^verbatim>\<open>NewRestClient\<close> assigns, and \<^verbatim>\<open>Host\<close> for
  the fields it leaves as they are.
\<close>

record Config =
  Host :: string
  APIPath :: string
  AcceptContentTypes :: string
  GroupVersion :: "GroupVersion option"
  NegotiatedSerializer :: "serializer option"

text \<open>
  \<^verbatim>\<open>HeadOptions\<close>. \<^verbatim>\<open>Mapper\<close> is the \<^verbatim>\<open>ResourceFor\<close> method of the
  \<^verbatim>\<open>meta.RESTMapper\<close>; the fields that neither \<^verbatim>\<open>Validate\<close> nor \<^verbatim>\<open>Run\<close> reads
  (\<^verbatim>\<open>ConfigFlags\<close>, \<^verbatim>\<open>DynamicClient\<close>, the streams) are in the extension of the
  record, and the bytes written to \<^verbatim>\<open>Out\<close> are part of the world below.
\<close>

record HeadOptions =
  PrintFlags :: "PrintFlags option"
  Resource :: string
  Limit :: int64
  ContinueToken :: string
  Interactive :: bool
  Selector :: string
  AllNamespaces :: bool
  Namespace :: string
  Mapper :: "GroupVersionResource \<Rightarrow> error + GroupVersionResource"
  RESTConfig :: "Config option"

subsection \<open>Validate\<close>

definition Validate :: "'a HeadOptions_scheme \<Rightarrow> outcome" where
  "Validate ho =
     (if sint (Limit ho) \<le> 0 then
        Failure (Errorf ''--limit must be a positive number'' [])
      else if Interactive ho \<and> ContinueToken ho \<noteq> '''' then
        Failure (Errorf ''cannot use --interactive and --continue flags together'' [])
      else if Interactive ho then
        (case PrintFlags ho of
           None \<Rightarrow> NilPointerPanic
         | Some pf \<Rightarrow>
             (case OutputFormat pf of
                None \<Rightarrow> NilPointerPanic
              | Some fmt \<Rightarrow>
                  if fmt \<noteq> '''' \<and> fmt \<noteq> ''wide'' then
                    Failure (Errorf
                      ''interactive mode is only supported for standard and wide table output'' [])
                  else Success))
      else Success)"

text \<open>The output format of the options, when the two pointers to it are set.\<close>

definition output_format :: "'a HeadOptions_scheme \<Rightarrow> string option" where
  "output_format ho = (case PrintFlags ho of None \<Rightarrow> None | Some pf \<Rightarrow> OutputFormat pf)"

subsection \<open>GetResourceGVR\<close>

text \<open>
  \<^verbatim>\<open>strings.Split(s, sep)\<close> for a separator of one byte: the pieces of \<open>s\<close> between
  the occurrences of the separator, one more than there are occurrences.
\<close>

fun Split :: "string \<Rightarrow> char \<Rightarrow> string list" where
  "Split [] sep = [[]]"
| "Split (c # cs) sep =
     (if c = sep then [] # Split cs sep
      else (case Split cs sep of
              [] \<Rightarrow> [[c]]
            | p # ps \<Rightarrow> (c # p) # ps))"

text \<open>
  Lines 205 to 211: the partial identifier built from the lower-cased argument.
  An absent group or version is the empty string, as in Go.
\<close>

definition gvrToFind :: "string \<Rightarrow> GroupVersionResource" where
  "gvrToFind resourceArg =
     (let parts = Split resourceArg (CHR ''.'') in
      if length parts = 2 then
        \<lparr>gvr_Group = parts ! 1, gvr_Version = '''', gvr_Resource = parts ! 0\<rparr>
      else
        \<lparr>gvr_Group = '''', gvr_Version = '''', gvr_Resource = resourceArg\<rparr>)"

text \<open>
  The collaborators outside the repository. \<^verbatim>\<open>strings.ToLower\<close> is the library's
  lower-casing. \<^verbatim>\<open>rest.RESTClientFor\<close> accepts a configuration or refuses it with an
  error. \<^verbatim>\<open>Do\<close> is the API server: it answers the last request of the log of all
  requests sent so far with an error or a table. \<^verbatim>\<open>PrintObj\<close> is the table printer:
  the text it writes and the error it returns, if any. \<^verbatim>\<open>ReadRune\<close> is what the
  read at the \<open>n\<close>-th prompt returns: each prompt reads one rune through a new
  \<^verbatim>\<open>bufio.Reader\<close> on \<^verbatim>\<open>os.Stdin\<close>.
\<close>

record Table =
  ColumnDefinitions :: "string list"
  Rows :: "string list list"
  Continue :: string

record ListOptions =
  lo_Limit :: int64
  lo_Continue :: string
  lo_LabelSelector :: string

datatype RESTClient = RESTClient (config_of: Config)

record Request =
  req_client :: RESTClient
  req_Namespace :: string
  req_Resource :: string
  req_params :: ListOptions

record env =
  ToLower :: "string \<Rightarrow> string"
  RESTClientFor :: "Config \<Rightarrow> error option"
  Do :: "Request list \<Rightarrow> error + Table"
  PrintObj :: "Table \<Rightarrow> string \<times> error option"
  ReadRune :: "nat \<Rightarrow> error + rune"

definition GetResourceGVR :: "env \<Rightarrow> 'a HeadOptions_scheme \<Rightarrow> error + GroupVersionResource" where
  "GetResourceGVR E ho =
     (let resourceArg = ToLower E (Resource ho) in
      case Mapper ho (gvrToFind resourceArg) of
        Inl err \<Rightarrow> Inl (Errorf ''the server doesn't have a resource type %q'' [Resource ho])
      | Inr gvr \<Rightarrow> Inr gvr)"

subsection \<open>NewRestClient\<close>

definition NewRestClient :: "env \<Rightarrow> Config \<Rightarrow> GroupVersion \<Rightarrow> error + RESTClient" where
  "NewRestClient E config gv =
     (let config = config\<lparr>GroupVersion := Some gv\<rparr>;
          config = config\<lparr>APIPath := ''/apis''\<rparr>;
          config = (if gv_Group gv = '''' then config\<lparr>APIPath := ''/api''\<rparr> else config);
          config = config\<lparr>AcceptContentTypes :=
            ''application/json;as=Table;v=v1;g=meta.k8s.io,application/json''\<rparr>;
          config = config\<lparr>NegotiatedSerializer := Some WithoutConversion\<rparr>
      in case RESTClientFor E config of
           Some err \<Rightarrow> Inl err
         | None \<Rightarrow> Inr (RESTClient config))"

text \<open>\<^verbatim>\<open>gvr.GroupVersion()\<close>\<close>

definition gvr_GroupVersion :: "GroupVersionResource \<Rightarrow> GroupVersion" where
  "gvr_GroupVersion gvr = \<lparr>gv_Group = gvr_Group gvr, gv_Version = gvr_Version gvr\<rparr>"

subsection \<open>Run\<close>

text \<open>
  The state \<^verbatim>\<open>Run\<close> works on: the options behind the receiver pointer, the log of
  the list requests sent, the bytes written to \<^verbatim>\<open>o.Out\<close> and to \<^verbatim>\<open>os.Stdout\<close>, and
  the number of reads from \<^verbatim>\<open>os.Stdin\<close> so far.
\<close>

record 'a world =
  opts :: "'a HeadOptions_scheme"
  requests :: "Request list"
  Out :: string
  Stdout :: string
  reads :: nat

text \<open>The two local variables that live across the iterations of the loop.\<close>

record locals =
  continueToken :: string
  isFirstRequest :: bool

text \<open>What one pass through the body of the \<^verbatim>\<open>for\<close> loop ends with.\<close>

datatype control = Return outcome | NextIteration locals

definition newline :: string where
  "newline = [CHR 0x0A]"

text \<open>The request of lines 125 to 137, built from the options as they are now.\<close>

definition list_request ::
  "string \<Rightarrow> RESTClient \<Rightarrow> GroupVersionResource \<Rightarrow> locals \<Rightarrow> 'a world \<Rightarrow> Request" where
  "list_request ns restClient gvr l s =
     \<lparr>req_client = restClient, req_Namespace = ns, req_Resource = gvr_Resource gvr,
      req_params = \<lparr>lo_Limit = Limit (opts s), lo_Continue = continueToken l,
                    lo_LabelSelector = Selector (opts s)\<rparr>\<rparr>"

text \<open>Lines 157 to 181: what follows a page that has been printed.\<close>

definition after_page :: "env \<Rightarrow> locals \<Rightarrow> 'a world \<Rightarrow> control \<times> 'a world" where
  "after_page E l s =
     (if continueToken l = '''' then
        (if Interactive (opts s) then
           (Return Success, s\<lparr>Out := Out s @ newline @ ''--- End of list ---'' @ newline\<rparr>)
         else (Return Success, s))
      else if Interactive (opts s) then
        (let s = s\<lparr>Out := Out s @ newline @ ''--- [n] next page, [q] quit: ''\<rparr>;
             r = ReadRune E (reads s);
             s = s\<lparr>reads := reads s + 1\<rparr>
         in case r of
              Inl err \<Rightarrow> (Return (Failure err), s)
            | Inr char \<Rightarrow>
                (let s = s\<lparr>Stdout := Stdout s @ newline\<rparr>
                 in if char \<noteq> 0x6E then (Return Success, s)
                    else (NextIteration l, s)))
      else
        (Return Success,
         s\<lparr>Out := Out s @ newline @ ''Continue Token: '' @ continueToken l @ newline\<rparr>))"

text \<open>Lines 125 to 155, then \<^const>\<open>after_page\<close>: one pass through the loop body.\<close>

definition iteration ::
  "env \<Rightarrow> string \<Rightarrow> RESTClient \<Rightarrow> GroupVersionResource \<Rightarrow> locals \<Rightarrow> 'a world
     \<Rightarrow> control \<times> 'a world" where
  "iteration E ns restClient gvr l s =
     (let s = s\<lparr>requests := requests s @ [list_request ns restClient gvr l s]\<rparr> in
      case Do E (requests s) of
        Inl err \<Rightarrow> (Return (Failure err), s)
      | Inr table \<Rightarrow>
          if isFirstRequest l \<and> length (Rows table) = 0 then
            (Return Success, s\<lparr>Out := Out s @ ''No resources found.'' @ newline\<rparr>)
          else
            (case PrintObj E table of
               (text, Some err) \<Rightarrow> (Return (Failure err), s\<lparr>Out := Out s @ text\<rparr>)
             | (text, None) \<Rightarrow>
                 after_page E \<lparr>continueToken = Continue table, isFirstRequest = False\<rparr>
                   (s\<lparr>Out := Out s @ text\<rparr>)))"

text \<open>
  The \<^verbatim>\<open>for\<close> loop. It has no bound: an interactive session goes on for as long
  as the server hands out tokens and the user types \<open>n\<close>, so the loop is a partial
  function and \<^const>\<open>None\<close> is a run that never returns.
\<close>

partial_function (option) run_loop ::
  "env \<Rightarrow> string \<Rightarrow> RESTClient \<Rightarrow> GroupVersionResource \<Rightarrow> locals \<Rightarrow> 'a world
     \<Rightarrow> (outcome \<times> 'a world) option" where
  "run_loop E ns restClient gvr l s =
     (case iteration E ns restClient gvr l s of
        (Return r, s') \<Rightarrow> Some (r, s')
      | (NextIteration l', s') \<Rightarrow> run_loop E ns restClient gvr l' s')"

declare run_loop.simps [code]

definition Run :: "env \<Rightarrow> 'a world \<Rightarrow> (outcome \<times> 'a world) option" where
  "Run E s =
     (case GetResourceGVR E (opts s) of
        Inl err \<Rightarrow> Some (Failure err, s)
      | Inr gvr \<Rightarrow>
          (let ns = (if AllNamespaces (opts s) then '''' else Namespace (opts s)) in
           case RESTConfig (opts s) of
             None \<Rightarrow> Some (NilPointerPanic, s)
           | Some config \<Rightarrow>
               (case NewRestClient E config (gvr_GroupVersion gvr) of
                  Inl err \<Rightarrow> Some (Failure err, s)
                | Inr restClient \<Rightarrow>
                    run_loop E ns restClient gvr
                      \<lparr>continueToken = ContinueToken (opts s), isFirstRequest = True\<rparr> s)))"

subsection \<open>Test doubles\<close>

text \<open>
  The collaborators of the repository's tests, for running the definitions on
  concrete sessions. \<^verbatim>\<open>fakeRESTMapperImpl.ResourceFor\<close> is the mapper of
  \<^verbatim>\<open>head_test.go\<close>; the server answers by the continuation token of the request, as
  the fake round tripper of \<^verbatim>\<open>TestRun_WithContinue\<close> answers every request with one
  table; the printer writes one line for the columns and one line for each row.
\<close>

definition ascii_ToLower :: "string \<Rightarrow> string" where
  "ascii_ToLower s =
     map (\<lambda>c. if 65 \<le> (of_char c :: nat) \<and> (of_char c :: nat) \<le> 90
              then (case c of Char b0 b1 b2 b3 b4 b5 b6 b7 \<Rightarrow> Char b0 b1 b2 b3 b4 True b6 b7)
              else c) s"

definition fakeRESTMapper ::
  "GroupVersionResource \<Rightarrow> error option \<Rightarrow> GroupVersionResource
     \<Rightarrow> error + GroupVersionResource" where
  "fakeRESTMapper gvr err input =
     (case err of
        Some e \<Rightarrow> Inl e
      | None \<Rightarrow>
          if gvr_Group input \<noteq> '''' \<and> gvr_Group input \<noteq> gvr_Group gvr
          then Inl (CollaboratorError ''group does not match'')
          else Inr gvr)"

definition fake_server :: "(string \<times> (error + Table)) list \<Rightarrow> Request list \<Rightarrow> error + Table" where
  "fake_server pages log =
     (if log = [] then Inl (CollaboratorError ''no request'')
      else (case map_of pages (lo_Continue (req_params (last log))) of
              None \<Rightarrow> Inl (CollaboratorError ''410 Gone'')
            | Some answer \<Rightarrow> answer))"

definition line_printer :: "Table \<Rightarrow> string \<times> error option" where
  "line_printer table =
     (concat (map (\<lambda>row. concat (map (\<lambda>cell. cell @ '' '') row) @ newline)
                (ColumnDefinitions table # Rows table)),
      None)"

definition keys :: "rune list \<Rightarrow> nat \<Rightarrow> error + rune" where
  "keys ks n = (if n < length ks then Inr (ks ! n) else Inl (CollaboratorError ''EOF''))"

definition test_env :: "(string \<times> (error + Table)) list \<Rightarrow> rune list \<Rightarrow> env" where
  "test_env pages ks =
     \<lparr>ToLower = ascii_ToLower, RESTClientFor = (\<lambda>config. None), Do = fake_server pages,
      PrintObj = line_printer, ReadRune = keys ks\<rparr>"

text \<open>A mapper that knows every resource, at version \<open>v1\<close>: it shows what it was asked.\<close>

definition any_v1_mapper :: "GroupVersionResource \<Rightarrow> error + GroupVersionResource" where
  "any_v1_mapper input = Inr (input\<lparr>gvr_Version := ''v1''\<rparr>)"

definition test_config :: Config where
  "test_config = \<lparr>Host = ''localhost'', APIPath = '''', AcceptContentTypes = '''',
                  GroupVersion = None, NegotiatedSerializer = None\<rparr>"

definition pods :: GroupVersionResource where
  "pods = \<lparr>gvr_Group = '''', gvr_Version = ''v1'', gvr_Resource = ''pods''\<rparr>"

definition deployments :: GroupVersionResource where
  "deployments = \<lparr>gvr_Group = ''apps'', gvr_Version = ''v1'', gvr_Resource = ''deployments''\<rparr>"

definition head_options :: "bool \<Rightarrow> string \<Rightarrow> HeadOptions" where
  "head_options interactive token =
     \<lparr>PrintFlags = Some \<lparr>OutputFormat = Some ''''\<rparr>, Resource = ''pods'', Limit = 5,
      ContinueToken = token, Interactive = interactive, Selector = ''app=web'',
      AllNamespaces = False, Namespace = ''e2e-test'', Mapper = fakeRESTMapper pods None,
      RESTConfig = Some test_config\<rparr>"

definition start :: "HeadOptions \<Rightarrow> unit world" where
  "start ho = \<lparr>opts = ho, requests = [], Out = '''', Stdout = '''', reads = 0\<rparr>"

text \<open>The client \<^const>\<open>NewRestClient\<close> builds for \<^const>\<open>pods\<close> from the configuration above.\<close>

definition pods_client :: RESTClient where
  "pods_client =
     RESTClient (test_config\<lparr>APIPath := ''/api'',
       AcceptContentTypes := ''application/json;as=Table;v=v1;g=meta.k8s.io,application/json'',
       GroupVersion := Some \<lparr>gv_Group = '''', gv_Version = ''v1''\<rparr>,
       NegotiatedSerializer := Some WithoutConversion\<rparr>)"

definition apps_client :: RESTClient where
  "apps_client =
     RESTClient (test_config\<lparr>APIPath := ''/apis'',
       AcceptContentTypes := ''application/json;as=Table;v=v1;g=meta.k8s.io,application/json'',
       GroupVersion := Some \<lparr>gv_Group = ''apps'', gv_Version = ''v1''\<rparr>,
       NegotiatedSerializer := Some WithoutConversion\<rparr>)"

definition pods_request :: "string \<Rightarrow> Request" where
  "pods_request token =
     \<lparr>req_client = pods_client, req_Namespace = ''e2e-test'', req_Resource = ''pods'',
      req_params = \<lparr>lo_Limit = 5, lo_Continue = token, lo_LabelSelector = ''app=web''\<rparr>\<rparr>"

definition page_a :: Table where
  "page_a = \<lparr>ColumnDefinitions = [''Name'', ''Age''], Rows = [[''pod-a'', ''10d'']],
             Continue = ''fake-continue-token''\<rparr>"

definition page_b :: Table where
  "page_b = \<lparr>ColumnDefinitions = [''Name'', ''Age''], Rows = [[''pod-b'', ''3d'']],
             Continue = ''''\<rparr>"

definition empty_page :: "string \<Rightarrow> Table" where
  "empty_page token = \<lparr>ColumnDefinitions = [''Name'', ''Age''], Rows = [], Continue = token\<rparr>"

section \<open>Properties\<close>

subsection \<open>Splitting at the dots\<close>

lemma Split_not_Nil: "Split s sep \<noteq> []"
  by (induction s) (auto split: list.splits)

lemma Split_no_sep: "sep \<notin> set s \<Longrightarrow> Split s sep = [s]"
  by (induction s) auto

lemma Split_at_first_sep: "sep \<notin> set x \<Longrightarrow> Split (x @ sep # y) sep = x # Split y sep"
  by (induction x) auto

lemma length_Split: "length (Split s sep) = Suc (count_list s sep)"
  by (induction s) (auto split: list.splits simp: Split_not_Nil)

text \<open>A string has exactly one separator when it is two separator-free parts around one.\<close>

lemma one_sep_decomposition:
  "count_list s sep = 1 \<longleftrightarrow> (\<exists>x y. s = x @ sep # y \<and> sep \<notin> set x \<and> sep \<notin> set y)"
proof
  assume one: "count_list s sep = 1"
  then have "sep \<in> set s"
    by (metis count_list_0_iff zero_neq_one)
  then obtain x y where s: "s = x @ sep # y" and x: "sep \<notin> set x"
    by (meson split_list_first)
  with one have "count_list y sep = 0" by simp
  then have "sep \<notin> set y" by (simp add: count_list_0_iff)
  with s x show "\<exists>x y. s = x @ sep # y \<and> sep \<notin> set x \<and> sep \<notin> set y" by blast
next
  assume "\<exists>x y. s = x @ sep # y \<and> sep \<notin> set x \<and> sep \<notin> set y"
  then show "count_list s sep = 1" by (auto simp: count_list_0_iff)
qed

lemma gvrToFind_one_dot:
  assumes "CHR ''.'' \<notin> set x" and "CHR ''.'' \<notin> set y"
  shows "gvrToFind (x @ ''.'' @ y) = \<lparr>gvr_Group = y, gvr_Version = '''', gvr_Resource = x\<rparr>"
  using assms by (simp add: gvrToFind_def Split_at_first_sep Split_no_sep)

lemma gvrToFind_unsplit:
  assumes "count_list s (CHR ''.'') \<noteq> 1"
  shows "gvrToFind s = \<lparr>gvr_Group = '''', gvr_Version = '''', gvr_Resource = s\<rparr>"
  using assms by (simp add: gvrToFind_def length_Split)

text \<open>
  Claim C3. \<^const>\<open>GetResourceGVR\<close> lower-cases the argument first. When the lower-cased
  string is \<open>x.y\<close> with no further dot, the mapper is asked for resource \<open>x\<close> in group
  \<open>y\<close>; when it has no dot, and when it has two dots or more, the mapper is asked for
  the whole lower-cased string as the resource, with no group. The three cases are
  all there are (\<open>one_sep_decomposition\<close>).
\<close>

theorem GetResourceGVR_split:
  fixes ho :: "'a HeadOptions_scheme"
  shows
    "let s = ToLower E (Resource ho);
         ask = (\<lambda>g. case Mapper ho g of
                  Inl err \<Rightarrow>
                    Inl (Errorf ''the server doesn't have a resource type %q'' [Resource ho])
                | Inr gvr \<Rightarrow> Inr gvr)
     in (s = x @ ''.'' @ y \<and> CHR ''.'' \<notin> set x \<and> CHR ''.'' \<notin> set y \<longrightarrow>
           GetResourceGVR E ho = ask \<lparr>gvr_Group = y, gvr_Version = '''', gvr_Resource = x\<rparr>)
      \<and> (CHR ''.'' \<notin> set s \<longrightarrow>
           GetResourceGVR E ho = ask \<lparr>gvr_Group = '''', gvr_Version = '''', gvr_Resource = s\<rparr>)
      \<and> (2 \<le> count_list s (CHR ''.'') \<longrightarrow>
           GetResourceGVR E ho = ask \<lparr>gvr_Group = '''', gvr_Version = '''', gvr_Resource = s\<rparr>)"
proof -
  let ?s = "ToLower E (Resource ho)"
  have one: "gvrToFind ?s = \<lparr>gvr_Group = y, gvr_Version = '''', gvr_Resource = x\<rparr>"
    if "?s = x @ ''.'' @ y" "CHR ''.'' \<notin> set x" "CHR ''.'' \<notin> set y"
    using that gvrToFind_one_dot [of x y] by simp
  have none: "gvrToFind ?s = \<lparr>gvr_Group = '''', gvr_Version = '''', gvr_Resource = ?s\<rparr>"
    if "CHR ''.'' \<notin> set ?s"
    using that by (simp add: gvrToFind_unsplit)
  have many: "gvrToFind ?s = \<lparr>gvr_Group = '''', gvr_Version = '''', gvr_Resource = ?s\<rparr>"
    if "2 \<le> count_list ?s (CHR ''.'')"
    using that by (simp add: gvrToFind_unsplit)
  show ?thesis
    unfolding Let_def GetResourceGVR_def using one none many by metis
qed

theorem GetResourceGVR_split_witness:
  "GetResourceGVR (test_env [] [])
     ((head_options False '''')\<lparr>Resource := ''Deployments.Apps'', Mapper := any_v1_mapper\<rparr>)
     = Inr \<lparr>gvr_Group = ''apps'', gvr_Version = ''v1'', gvr_Resource = ''deployments''\<rparr>
   \<and> GetResourceGVR (test_env [] [])
     ((head_options False '''')\<lparr>Resource := ''Pods'', Mapper := any_v1_mapper\<rparr>)
     = Inr \<lparr>gvr_Group = '''', gvr_Version = ''v1'', gvr_Resource = ''pods''\<rparr>
   \<and> GetResourceGVR (test_env [] [])
     ((head_options False '''')\<lparr>Resource := ''a.b.c'', Mapper := any_v1_mapper\<rparr>)
     = Inr \<lparr>gvr_Group = '''', gvr_Version = ''v1'', gvr_Resource = ''a.b.c''\<rparr>"
  using
    GetResourceGVR_split [of "test_env [] []"
      "(head_options False '''')\<lparr>Resource := ''Deployments.Apps'', Mapper := any_v1_mapper\<rparr>"
      "''deployments''" "''apps''"]
    GetResourceGVR_split [of "test_env [] []"
      "(head_options False '''')\<lparr>Resource := ''Pods'', Mapper := any_v1_mapper\<rparr>"]
    GetResourceGVR_split [of "test_env [] []"
      "(head_options False '''')\<lparr>Resource := ''a.b.c'', Mapper := any_v1_mapper\<rparr>"]
  by (simp add: Let_def test_env_def head_options_def ascii_ToLower_def any_v1_mapper_def)

text \<open>
  Claim C8, as the code has it. When the lower-cased argument is \<open>x.\<close>, one dot and
  that dot last, \<^verbatim>\<open>strings.Split\<close> gives the two parts \<open>x\<close> and the empty string, so
  the argument is neither handed on whole, as \<open>x.\<close>, nor refused before the mapper is
  asked: the mapper is asked for resource \<open>x\<close> with the empty group. That is the very
  question asked for the undotted \<open>x\<close>, where the group is unset, so the group of the
  answer is the mapper's choice.
\<close>

theorem trailing_dot_asks_as_undotted:
  fixes ho :: "'a HeadOptions_scheme"
  assumes "ToLower E (Resource ho) = x @ ''.''" and "CHR ''.'' \<notin> set x"
  shows "Split (ToLower E (Resource ho)) (CHR ''.'') = [x, '''']
       \<and> gvrToFind (ToLower E (Resource ho)) =
           \<lparr>gvr_Group = '''', gvr_Version = '''', gvr_Resource = x\<rparr>
       \<and> gvrToFind (ToLower E (Resource ho)) = gvrToFind x
       \<and> GetResourceGVR E ho =
          (case Mapper ho (gvrToFind x) of
             Inl err \<Rightarrow> Inl (Errorf ''the server doesn't have a resource type %q'' [Resource ho])
           | Inr gvr \<Rightarrow> Inr gvr)"
proof -
  have undotted: "gvrToFind x = \<lparr>gvr_Group = '''', gvr_Version = '''', gvr_Resource = x\<rparr>"
    using assms(2) by (simp add: gvrToFind_unsplit count_list_0_iff)
  have dotted: "gvrToFind (x @ ''.'') = \<lparr>gvr_Group = '''', gvr_Version = '''', gvr_Resource = x\<rparr>"
    using assms(2) gvrToFind_one_dot [of x "''''"] by simp
  show ?thesis
    using assms undotted dotted by (simp add: GetResourceGVR_def Split_at_first_sep)
qed

theorem trailing_dot_asks_as_undotted_witness:
  "GetResourceGVR (test_env [] [])
     ((head_options False '''')\<lparr>Resource := ''pods.'', Mapper := any_v1_mapper\<rparr>)
     = Inr \<lparr>gvr_Group = '''', gvr_Version = ''v1'', gvr_Resource = ''pods''\<rparr>
 \<and> gvrToFind ''pods.'' = gvrToFind ''pods''"
  using trailing_dot_asks_as_undotted [of "test_env [] []"
      "(head_options False '''')\<lparr>Resource := ''pods.'', Mapper := any_v1_mapper\<rparr>" "''pods''"]
  by (simp add: test_env_def head_options_def ascii_ToLower_def any_v1_mapper_def gvrToFind_def)

text \<open>
  Claim C8 as it was stated has the empty group of \<open>x.\<close> treated as the core group,
  and the resource be the part of the input before the dot. With the mapper of
  \<^verbatim>\<open>head_test.go\<close> knowing \<open>deployments\<close> in the group \<open>apps\<close>, the argument
  \<open>deployments.\<close> is resolved to the group \<open>apps\<close>; and the argument \<open>Pods.\<close> is asked
  for as the resource \<open>pods\<close>.
\<close>

theorem trailing_dot_resolved_outside_core:
  "GetResourceGVR (test_env [] [])
     ((head_options False '''')
        \<lparr>Resource := ''deployments.'', Mapper := fakeRESTMapper deployments None\<rparr>)
     = Inr \<lparr>gvr_Group = ''apps'', gvr_Version = ''v1'', gvr_Resource = ''deployments''\<rparr>
 \<and> GetResourceGVR (test_env [] [])
     ((head_options False '''')\<lparr>Resource := ''Pods.'', Mapper := any_v1_mapper\<rparr>)
     = Inr \<lparr>gvr_Group = '''', gvr_Version = ''v1'', gvr_Resource = ''pods''\<rparr>"
  by (simp add: GetResourceGVR_def gvrToFind_def test_env_def head_options_def
      ascii_ToLower_def fakeRESTMapper_def deployments_def any_v1_mapper_def)

subsection \<open>Validation\<close>

text \<open>
  The two pointers on the way to the output format are read only in interactive mode
  with a positive limit and no token; when one of them is \<^verbatim>\<open>nil\<close> there,
  \<^verbatim>\<open>Validate\<close> panics. \<^verbatim>\<open>NewHeadOptions\<close> sets both.
\<close>

lemma Validate_nil_output_format:
  fixes ho :: "'a HeadOptions_scheme"
  assumes "0 < sint (Limit ho)" and "Interactive ho" and "ContinueToken ho = ''''"
    and "output_format ho = None"
  shows "Validate ho = NilPointerPanic"
  using assms by (auto simp: Validate_def output_format_def split: option.splits)

text \<open>
  Claim C5, as the code has it. \<^const>\<open>Validate\<close> returns an error when the limit is
  not positive, whatever the other fields are, \<^verbatim>\<open>nil\<close> pointers among them; when
  interactive mode comes with a continuation token, again whatever the other fields
  are; and when interactive mode comes with an output format that is there and is
  neither the default, the empty string, nor \<open>wide\<close>. It returns no error when the
  limit is positive and the mode is not interactive, and when the limit is positive
  and interactive mode has no token and an output format that is the default or
  \<open>wide\<close>. Left is interactive mode with a positive limit, no token and a \<^verbatim>\<open>nil\<close>
  pointer on the way to the output format: there \<^const>\<open>Validate\<close> panics and returns
  nothing.
\<close>

theorem Validate_rejections:
  fixes ho :: "'a HeadOptions_scheme"
  shows
    "(sint (Limit ho) \<le> 0 \<longrightarrow> (\<exists>e. Validate ho = Failure e))
   \<and> (Interactive ho \<and> ContinueToken ho \<noteq> '''' \<longrightarrow> (\<exists>e. Validate ho = Failure e))
   \<and> (Interactive ho \<and> output_format ho = Some fmt \<and> fmt \<noteq> '''' \<and> fmt \<noteq> ''wide''
        \<longrightarrow> (\<exists>e. Validate ho = Failure e))
   \<and> (\<not> sint (Limit ho) \<le> 0
        \<and> \<not> (Interactive ho \<and> ContinueToken ho \<noteq> '''')
        \<and> (Interactive ho \<longrightarrow> output_format ho = Some '''' \<or> output_format ho = Some ''wide'')
        \<longrightarrow> Validate ho = Success)
   \<and> (\<not> sint (Limit ho) \<le> 0 \<and> Interactive ho \<and> ContinueToken ho = ''''
        \<and> output_format ho = None
        \<longrightarrow> Validate ho = NilPointerPanic)"
  by (auto simp: Validate_def output_format_def split: option.splits)

theorem Validate_rejections_witness:
  "Validate ((head_options False '''')\<lparr>Limit := 0\<rparr>) \<noteq> Success
 \<and> Validate ((head_options False '''')\<lparr>Limit := - 1, PrintFlags := None\<rparr>) \<noteq> Success
 \<and> Validate ((head_options True ''token'')\<lparr>PrintFlags := None\<rparr>) \<noteq> Success
 \<and> Validate ((head_options True '''')\<lparr>PrintFlags := Some \<lparr>OutputFormat = Some ''json''\<rparr>\<rparr>)
      \<noteq> Success
 \<and> Validate (head_options True '''') = Success
 \<and> Validate ((head_options True '''')\<lparr>PrintFlags := Some \<lparr>OutputFormat = Some ''wide''\<rparr>\<rparr>)
      = Success
 \<and> Validate ((head_options False ''token'')\<lparr>PrintFlags := Some \<lparr>OutputFormat = Some ''json''\<rparr>\<rparr>)
      = Success
 \<and> Validate ((head_options False '''')\<lparr>PrintFlags := None\<rparr>) = Success
 \<and> Validate ((head_options True '''')\<lparr>PrintFlags := Some \<lparr>OutputFormat = None\<rparr>\<rparr>)
      = NilPointerPanic"
  using
    Validate_rejections [of "(head_options False '''')\<lparr>Limit := 0\<rparr>"]
    Validate_rejections [of "(head_options False '''')\<lparr>Limit := - 1, PrintFlags := None\<rparr>"]
    Validate_rejections [of "(head_options True ''token'')\<lparr>PrintFlags := None\<rparr>"]
    Validate_rejections
      [of "(head_options True '''')\<lparr>PrintFlags := Some \<lparr>OutputFormat = Some ''json''\<rparr>\<rparr>"
          "''json''"]
    Validate_rejections [of "head_options True ''''"]
    Validate_rejections
      [of "(head_options True '''')\<lparr>PrintFlags := Some \<lparr>OutputFormat = Some ''wide''\<rparr>\<rparr>"]
    Validate_rejections
      [of "(head_options False ''token'')\<lparr>PrintFlags := Some \<lparr>OutputFormat = Some ''json''\<rparr>\<rparr>"]
    Validate_rejections [of "(head_options False '''')\<lparr>PrintFlags := None\<rparr>"]
    Validate_rejections
      [of "(head_options True '''')\<lparr>PrintFlags := Some \<lparr>OutputFormat = None\<rparr>\<rparr>"]
  by (auto simp: head_options_def output_format_def)

text \<open>
  Claim C5 as it was stated has \<^const>\<open>Validate\<close> return no error for all options that
  meet none of the three conditions, and an error for all that meet one. The options
  below are those of the case \<open>interactive and continue token together\<close> of
  \<^verbatim>\<open>TestValidate\<close> without the token: interactive, limit 10, \<^verbatim>\<open>PrintFlags\<close> left
  \<^verbatim>\<open>nil\<close>. The limit is positive and there is no token; \<^const>\<open>Validate\<close> returns
  neither \<^verbatim>\<open>nil\<close> nor an error, it panics.
\<close>

theorem Validate_nil_PrintFlags_panics:
  "\<not> sint (Limit ((head_options True '''')\<lparr>Limit := 10, PrintFlags := None\<rparr>)) \<le> 0
 \<and> Interactive ((head_options True '''')\<lparr>Limit := 10, PrintFlags := None\<rparr>)
 \<and> ContinueToken ((head_options True '''')\<lparr>Limit := 10, PrintFlags := None\<rparr>) = ''''
 \<and> PrintFlags ((head_options True '''')\<lparr>Limit := 10, PrintFlags := None\<rparr>) = None
 \<and> Validate ((head_options True '''')\<lparr>Limit := 10, PrintFlags := None\<rparr>) = NilPointerPanic
 \<and> Validate ((head_options True '''')\<lparr>Limit := 10, PrintFlags := None\<rparr>) \<noteq> Success"
  by (simp add: head_options_def Validate_def)

subsection \<open>The REST client\<close>

text \<open>
  Claim C6. For every configuration and every group and version, the client that
  \<^const>\<open>NewRestClient\<close> builds has the path \<open>/api\<close> when the group is empty and
  \<open>/apis\<close> otherwise; its accept header names two media types, the table
  representation first and plain JSON after it; and it is bound to the group and
  version.
\<close>

theorem NewRestClient_path_and_accept:
  assumes "NewRestClient E config gv = Inr client"
  shows "APIPath (config_of client) = (if gv_Group gv = '''' then ''/api'' else ''/apis'')
       \<and> Split (AcceptContentTypes (config_of client)) (CHR '','') =
           [''application/json;as=Table;v=v1;g=meta.k8s.io'', ''application/json'']
       \<and> GroupVersion (config_of client) = Some gv"
  using assms by (auto simp: NewRestClient_def Let_def split: option.splits)

lemma test_NewRestClient:
  "NewRestClient (test_env pages ks) test_config (gvr_GroupVersion pods) = Inr pods_client"
  by (simp add: NewRestClient_def test_env_def pods_def gvr_GroupVersion_def pods_client_def)

theorem NewRestClient_path_and_accept_witness:
  "NewRestClient (test_env [] []) test_config \<lparr>gv_Group = '''', gv_Version = ''v1''\<rparr>
     = Inr pods_client
 \<and> APIPath (config_of pods_client) = ''/api''
 \<and> NewRestClient (test_env [] []) test_config \<lparr>gv_Group = ''apps'', gv_Version = ''v1''\<rparr>
     = Inr apps_client
 \<and> APIPath (config_of apps_client) = ''/apis''"
proof -
  have core: "NewRestClient (test_env [] []) test_config \<lparr>gv_Group = '''', gv_Version = ''v1''\<rparr>
      = Inr pods_client"
    using test_NewRestClient [of "[]" "[]"] by (simp add: pods_def gvr_GroupVersion_def)
  have apps: "NewRestClient (test_env [] []) test_config \<lparr>gv_Group = ''apps'', gv_Version = ''v1''\<rparr>
      = Inr apps_client"
    by (simp add: NewRestClient_def test_env_def apps_client_def)
  from NewRestClient_path_and_accept [OF core] NewRestClient_path_and_accept [OF apps] core apps
  show ?thesis by simp
qed


subsection \<open>The loop\<close>

lemma run_loop_Return:
  "iteration E ns c gvr l s = (Return r, s') \<Longrightarrow> run_loop E ns c gvr l s = Some (r, s')"
  by (subst run_loop.simps) simp

lemma run_loop_NextIteration:
  "iteration E ns c gvr l s = (NextIteration l', s') \<Longrightarrow>
   run_loop E ns c gvr l s = run_loop E ns c gvr l' s'"
  by (subst run_loop.simps) simp

lemma Run_enters_loop:
  assumes "GetResourceGVR E (opts s) = Inr gvr" and "RESTConfig (opts s) = Some config"
    and "NewRestClient E config (gvr_GroupVersion gvr) = Inr c"
  shows "Run E s = run_loop E (if AllNamespaces (opts s) then '''' else Namespace (opts s)) c gvr
           \<lparr>continueToken = ContinueToken (opts s), isFirstRequest = True\<rparr> s"
  using assms by (simp add: Run_def)

lemma iteration_fetch_error:
  assumes "Do E (requests s @ [list_request ns c gvr l s]) = Inl err"
  shows "iteration E ns c gvr l s =
           (Return (Failure err), s\<lparr>requests := requests s @ [list_request ns c gvr l s]\<rparr>)"
  using assms by (simp add: iteration_def)

lemma iteration_first_empty:
  assumes "Do E (requests s @ [list_request ns c gvr l s]) = Inr table"
    and "isFirstRequest l" and "Rows table = []"
  shows "iteration E ns c gvr l s =
           (Return Success, s\<lparr>requests := requests s @ [list_request ns c gvr l s],
                              Out := Out s @ ''No resources found.'' @ newline\<rparr>)"
  using assms by (simp add: iteration_def)

lemma iteration_printed:
  assumes "Do E (requests s @ [list_request ns c gvr l s]) = Inr table"
    and "\<not> (isFirstRequest l \<and> length (Rows table) = 0)"
    and "PrintObj E table = (printed, None)"
  shows "iteration E ns c gvr l s =
           after_page E \<lparr>continueToken = Continue table, isFirstRequest = False\<rparr>
             (s\<lparr>requests := requests s @ [list_request ns c gvr l s], Out := Out s @ printed\<rparr>)"
  using assms by (auto simp: iteration_def Let_def)

lemma after_page_no_token:
  assumes "continueToken l = ''''"
  shows "after_page E l s =
           (Return Success,
            s\<lparr>Out := Out s @ (if Interactive (opts s)
                               then newline @ ''--- End of list ---'' @ newline else '''')\<rparr>)"
  using assms by (simp add: after_page_def)

lemma after_page_print_token:
  assumes "continueToken l \<noteq> ''''" and "\<not> Interactive (opts s)"
  shows "after_page E l s =
           (Return Success,
            s\<lparr>Out := Out s @ newline @ ''Continue Token: '' @ continueToken l @ newline\<rparr>)"
  using assms by (simp add: after_page_def)


lemma after_page_key:
  assumes "continueToken l \<noteq> ''''" and "Interactive (opts s)"
    and "ReadRune E (reads s) = Inr char"
  shows "after_page E l s =
           (if char \<noteq> 0x6E then Return Success else NextIteration l,
            s\<lparr>Out := Out s @ newline @ ''--- [n] next page, [q] quit: '',
              reads := reads s + 1, Stdout := Stdout s @ newline\<rparr>)"
  using assms by (simp add: after_page_def)

subsection \<open>The test session\<close>

lemma start_sel [simp]:
  "opts (start ho) = ho" "requests (start ho) = []" "Out (start ho) = ''''"
  "Stdout (start ho) = ''''" "reads (start ho) = 0"
  by (simp_all add: start_def)

lemma head_options_sel [simp]:
  "Interactive (head_options i t) = i" "ContinueToken (head_options i t) = t"
  "AllNamespaces (head_options i t) = False" "Namespace (head_options i t) = ''e2e-test''"
  "Limit (head_options i t) = 5" "Selector (head_options i t) = ''app=web''"
  "RESTConfig (head_options i t) = Some test_config"
  by (simp_all add: head_options_def)

lemma test_env_sel [simp]:
  "Do (test_env pages ks) = fake_server pages" "PrintObj (test_env pages ks) = line_printer"
  "ReadRune (test_env pages ks) = keys ks"
  by (simp_all add: test_env_def)

lemma test_GetResourceGVR: "GetResourceGVR (test_env pages ks) (head_options i t) = Inr pods"
  by (simp add: GetResourceGVR_def test_env_def head_options_def ascii_ToLower_def
      gvrToFind_def fakeRESTMapper_def pods_def)

lemma test_Run_enters_loop:
  "Run (test_env pages ks) (start (head_options i t)) =
   run_loop (test_env pages ks) ''e2e-test'' pods_client pods
     \<lparr>continueToken = t, isFirstRequest = True\<rparr> (start (head_options i t))"
  using Run_enters_loop [of "test_env pages ks" "start (head_options i t)" pods test_config
      pods_client]
  by (simp add: test_GetResourceGVR test_NewRestClient)

lemma test_list_request:
  "opts s = head_options i t \<Longrightarrow>
   list_request ''e2e-test'' pods_client pods l s = pods_request (continueToken l)"
  by (simp add: list_request_def pods_request_def pods_def)

lemma fake_server_last:
  "fake_server pages (log @ [pods_request token]) =
     (case map_of pages token of
        None \<Rightarrow> Inl (CollaboratorError ''410 Gone'')
      | Some answer \<Rightarrow> answer)"
  by (simp add: fake_server_def pods_request_def)

lemmas fake_server_first = fake_server_last [of _ "[]", simplified]

subsection \<open>Failed requests\<close>

text \<open>
  Claim C7. When the server or the transport fails a list request, in any pass
  through the loop, the run returns that error at once: the failed request is the
  last one sent, so there is no retry, and nothing is written for the page.
\<close>

theorem fetch_failure_is_fatal:
  fixes s :: "'a world"
  assumes "Do E (requests s @ [list_request ns c gvr l s]) = Inl err"
  shows "run_loop E ns c gvr l s =
           Some (Failure err, s\<lparr>requests := requests s @ [list_request ns c gvr l s]\<rparr>)"
  by (rule run_loop_Return) (rule iteration_fetch_error [OF assms])

theorem fetch_failure_is_fatal_witness:
  "Run (test_env [] []) (start (head_options False '''')) =
     Some (Failure (CollaboratorError ''410 Gone''),
           (start (head_options False ''''))\<lparr>requests := [pods_request '''']\<rparr>)"
  using fetch_failure_is_fatal
    [where E = "test_env [] []" and s = "start (head_options False '''')"
       and ns = "''e2e-test''" and c = pods_client and gvr = pods
       and l = "\<lparr>continueToken = '''', isFirstRequest = True\<rparr>"
       and err = "CollaboratorError ''410 Gone''"]
  by (simp add: test_Run_enters_loop test_list_request [of _ False "''''"] fake_server_first)

subsection \<open>The first page\<close>

text \<open>
  Claim C4. When the first request of a run is answered with a table of no rows,
  whatever the starting token of the run is, the run writes the one line
  \<open>No resources found.\<close> and returns \<^verbatim>\<open>nil\<close>: nothing else is written, the table is not
  printed, its token is not looked at, nothing is read and no second request is sent.
\<close>

theorem first_page_empty_notice:
  fixes s :: "'a world"
  assumes "GetResourceGVR E (opts s) = Inr gvr" and "RESTConfig (opts s) = Some config"
    and "NewRestClient E config (gvr_GroupVersion gvr) = Inr c"
    and "first = list_request (if AllNamespaces (opts s) then '''' else Namespace (opts s)) c gvr
                   \<lparr>continueToken = ContinueToken (opts s), isFirstRequest = True\<rparr> s"
    and "Do E (requests s @ [first]) = Inr table" and "Rows table = []"
  shows "Run E s =
           Some (Success, s\<lparr>requests := requests s @ [first],
                            Out := Out s @ ''No resources found.'' @ newline\<rparr>)"
proof -
  have "iteration E (if AllNamespaces (opts s) then '''' else Namespace (opts s)) c gvr
          \<lparr>continueToken = ContinueToken (opts s), isFirstRequest = True\<rparr> s =
        (Return Success, s\<lparr>requests := requests s @ [first],
                           Out := Out s @ ''No resources found.'' @ newline\<rparr>)"
    using assms(4-6) iteration_first_empty [of E s _ c gvr _ table] by simp
  then show ?thesis
    using Run_enters_loop [OF assms(1-3)] by (simp add: run_loop_Return)
qed

theorem first_page_empty_notice_witness:
  "Run (test_env [(''fake-continue-token'', Inr (empty_page ''more''))] [])
       (start (head_options False ''fake-continue-token'')) =
     Some (Success,
           (start (head_options False ''fake-continue-token''))
             \<lparr>requests := [pods_request ''fake-continue-token''],
              Out := ''No resources found.'' @ newline\<rparr>)"
  using first_page_empty_notice
    [where E = "test_env [(''fake-continue-token'', Inr (empty_page ''more''))] []"
       and s = "start (head_options False ''fake-continue-token'')"
       and gvr = pods and config = test_config and c = pods_client
       and first = "pods_request ''fake-continue-token''"
       and table = "empty_page ''more''"]
  by (simp add: test_GetResourceGVR test_NewRestClient
      test_list_request [of _ False "''fake-continue-token''"] fake_server_first empty_page_def)

subsection \<open>After a page\<close>

text \<open>
  Claim C1. After a page has been printed, in any pass through the loop, its
  continuation token decides. When the token is empty the run returns \<^verbatim>\<open>nil\<close>, having
  written the end-of-list marker after the page when it is interactive and nothing
  after the page when it is not. When the token is not empty and the run is not
  interactive, the run writes the token line after the page and returns \<^verbatim>\<open>nil\<close>. In
  both cases the request of this page is the last one sent.
\<close>

theorem token_decides_after_page:
  fixes s :: "'a world"
  assumes "Do E (requests s @ [list_request ns c gvr l s]) = Inr table"
    and "\<not> (isFirstRequest l \<and> length (Rows table) = 0)"
    and "PrintObj E table = (printed, None)"
  shows "(Continue table = '''' \<longrightarrow>
            run_loop E ns c gvr l s =
              Some (Success,
                s\<lparr>requests := requests s @ [list_request ns c gvr l s],
                  Out := Out s @ printed @
                    (if Interactive (opts s)
                     then newline @ ''--- End of list ---'' @ newline else '''')\<rparr>))
       \<and> (Continue table \<noteq> '''' \<and> \<not> Interactive (opts s) \<longrightarrow>
            run_loop E ns c gvr l s =
              Some (Success,
                s\<lparr>requests := requests s @ [list_request ns c gvr l s],
                  Out := Out s @ printed @ newline @ ''Continue Token: '' @ Continue table
                           @ newline\<rparr>))"
proof (intro conjI impI)
  assume "Continue table = ''''"
  then show "run_loop E ns c gvr l s =
      Some (Success,
        s\<lparr>requests := requests s @ [list_request ns c gvr l s],
          Out := Out s @ printed @
            (if Interactive (opts s) then newline @ ''--- End of list ---'' @ newline else '''')\<rparr>)"
    by (intro run_loop_Return) (simp add: iteration_printed [OF assms] after_page_no_token)
next
  assume "Continue table \<noteq> '''' \<and> \<not> Interactive (opts s)"
  then show "run_loop E ns c gvr l s =
      Some (Success,
        s\<lparr>requests := requests s @ [list_request ns c gvr l s],
          Out := Out s @ printed @ newline @ ''Continue Token: '' @ Continue table @ newline\<rparr>)"
    by (intro run_loop_Return) (simp add: iteration_printed [OF assms] after_page_print_token)
qed

theorem token_decides_after_page_witness:
  "Run (test_env [('''', Inr page_a)] []) (start (head_options False '''')) =
     Some (Success,
           (start (head_options False ''''))
             \<lparr>requests := [pods_request ''''],
              Out := fst (line_printer page_a) @ newline
                       @ ''Continue Token: fake-continue-token'' @ newline\<rparr>)
 \<and> Run (test_env [('''', Inr page_b)] []) (start (head_options True '''')) =
     Some (Success,
           (start (head_options True ''''))
             \<lparr>requests := [pods_request ''''],
              Out := fst (line_printer page_b) @ newline @ ''--- End of list ---'' @ newline\<rparr>)
 \<and> Run (test_env [('''', Inr page_b)] []) (start (head_options False '''')) =
     Some (Success,
           (start (head_options False ''''))
             \<lparr>requests := [pods_request ''''], Out := fst (line_printer page_b)\<rparr>)"
  using
    token_decides_after_page
      [where E = "test_env [('''', Inr page_a)] []" and s = "start (head_options False '''')"
         and ns = "''e2e-test''" and c = pods_client and gvr = pods
         and l = "\<lparr>continueToken = '''', isFirstRequest = True\<rparr>"
         and table = page_a and printed = "fst (line_printer page_a)"]
    token_decides_after_page
      [where E = "test_env [('''', Inr page_b)] []" and s = "start (head_options True '''')"
         and ns = "''e2e-test''" and c = pods_client and gvr = pods
         and l = "\<lparr>continueToken = '''', isFirstRequest = True\<rparr>"
         and table = page_b and printed = "fst (line_printer page_b)"]
    token_decides_after_page
      [where E = "test_env [('''', Inr page_b)] []" and s = "start (head_options False '''')"
         and ns = "''e2e-test''" and c = pods_client and gvr = pods
         and l = "\<lparr>continueToken = '''', isFirstRequest = True\<rparr>"
         and table = page_b and printed = "fst (line_printer page_b)"]
  by (simp add: test_Run_enters_loop test_list_request [of _ _ "''''"] fake_server_first
      page_a_def page_b_def line_printer_def)


subsection \<open>What a pass through the loop leaves as it is\<close>

lemma after_page_frame:
  "after_page E l s = (ctl, s') \<Longrightarrow> opts s' = opts s \<and> requests s' = requests s"
  by (auto simp: after_page_def Let_def split: if_splits sum.splits)

lemma iteration_frame:
  assumes "iteration E ns c gvr l s = (ctl, s')"
  shows "opts s' = opts s \<and> requests s' = requests s @ [list_request ns c gvr l s]"
proof (cases "Do E (requests s @ [list_request ns c gvr l s])")
  case (Inl err)
  with assms show ?thesis by (auto simp: iteration_def)
next
  case (Inr table)
  obtain printed e where p: "PrintObj E table = (printed, e)"
    by (cases "PrintObj E table")
  show ?thesis
  proof (cases "isFirstRequest l \<and> length (Rows table) = 0")
    case True
    with assms Inr show ?thesis by (auto simp: iteration_def)
  next
    case False
    show ?thesis
    proof (cases e)
      case None
      with assms Inr False p have
        "after_page E \<lparr>continueToken = Continue table, isFirstRequest = False\<rparr>
           (s\<lparr>requests := requests s @ [list_request ns c gvr l s], Out := Out s @ printed\<rparr>)
         = (ctl, s')"
        by (auto simp: iteration_def)
      from after_page_frame [OF this] show ?thesis by simp
    next
      case (Some err)
      with assms Inr False p show ?thesis by (auto simp: iteration_def)
    qed
  qed
qed


lemma after_page_NextIteration:
  "after_page E l s = (NextIteration l', s') \<Longrightarrow> l' = l"
  by (auto simp: after_page_def Let_def split: if_splits sum.splits)

lemma iteration_NextIteration:
  assumes "iteration E ns c gvr l s = (NextIteration l', s')"
  shows "\<not> isFirstRequest l'"
proof (cases "Do E (requests s @ [list_request ns c gvr l s])")
  case (Inl err)
  with assms show ?thesis by (auto simp: iteration_def)
next
  case (Inr table)
  obtain printed e where p: "PrintObj E table = (printed, e)"
    by (cases "PrintObj E table")
  with assms Inr have
    "after_page E \<lparr>continueToken = Continue table, isFirstRequest = False\<rparr>
       (s\<lparr>requests := requests s @ [list_request ns c gvr l s], Out := Out s @ printed\<rparr>)
     = (NextIteration l', s')"
    by (cases e) (auto simp: iteration_def Let_def split: if_splits)
  from after_page_NextIteration [OF this] show ?thesis by simp
qed

subsection \<open>The prompt\<close>

lemma run_loop_prompt_accept:
  fixes s :: "'a world"
  assumes "Do E (requests s @ [list_request ns c gvr l s]) = Inr table"
    and "\<not> (isFirstRequest l \<and> length (Rows table) = 0)"
    and "PrintObj E table = (printed, None)"
    and "Continue table \<noteq> ''''" and "Interactive (opts s)"
    and "ReadRune E (reads s) = Inr 0x6E"
  shows "run_loop E ns c gvr l s =
         run_loop E ns c gvr \<lparr>continueToken = Continue table, isFirstRequest = False\<rparr>
           (s\<lparr>requests := requests s @ [list_request ns c gvr l s],
              Out := Out s @ printed @ newline @ ''--- [n] next page, [q] quit: '',
              reads := reads s + 1, Stdout := Stdout s @ newline\<rparr>)"
  using assms(4-6)
  by (intro run_loop_NextIteration)
    (simp add: iteration_printed [OF assms(1-3)] after_page_key [where char = "0x6E"])



lemma line_printer_ok: "line_printer table = (fst (line_printer table), None)"
  by (simp add: line_printer_def)

lemma page_a_token: "Continue page_a = ''fake-continue-token''"
  by (simp add: page_a_def)

text \<open>The last page of a test session, in a pass that prints it.\<close>

lemma test_last_page:
  assumes "opts s = head_options i t"
    and "map_of pages (continueToken l) = Some (Inr table)"
    and "Continue table = ''''" and "\<not> (isFirstRequest l \<and> length (Rows table) = 0)"
  shows "run_loop (test_env pages ks) ''e2e-test'' pods_client pods l s =
         Some (Success,
           s\<lparr>requests := requests s @ [pods_request (continueToken l)],
             Out := Out s @ fst (line_printer table) @
                      (if i then newline @ ''--- End of list ---'' @ newline else '''')\<rparr>)"
proof -
  have req: "list_request ''e2e-test'' pods_client pods l s = pods_request (continueToken l)"
    by (rule test_list_request [OF assms(1)])
  have "iteration (test_env pages ks) ''e2e-test'' pods_client pods l s =
        after_page (test_env pages ks) \<lparr>continueToken = Continue table, isFirstRequest = False\<rparr>
          (s\<lparr>requests := requests s @ [list_request ''e2e-test'' pods_client pods l s],
             Out := Out s @ fst (line_printer table)\<rparr>)"
    using assms(2,4) line_printer_ok [of table]
    by (intro iteration_printed) (simp_all add: req fake_server_last)
  then show ?thesis
    using assms(1,3) by (intro run_loop_Return) (simp add: after_page_no_token req)
qed




text \<open>An interactive test session of two pages, the user typing \<open>n\<close> at the prompt.\<close>

lemma test_two_pages:
  assumes "Continue table = ''''"
  shows "Run (test_env [('''', Inr page_a), (''fake-continue-token'', Inr table)] [0x6E])
           (start (head_options True '''')) =
     Some (Success,
       (start (head_options True ''''))
         \<lparr>requests := [pods_request '''', pods_request ''fake-continue-token''],
          Out := fst (line_printer page_a) @ newline @ ''--- [n] next page, [q] quit: ''
                   @ fst (line_printer table) @ newline @ ''--- End of list ---'' @ newline,
          reads := 1, Stdout := newline\<rparr>)"
proof -
  let ?E = "test_env [('''', Inr page_a), (''fake-continue-token'', Inr table)] [0x6E]"
  let ?s = "start (head_options True '''')"
  let ?l = "\<lparr>continueToken = '''', isFirstRequest = True\<rparr>"
  have page: "Do ?E (requests ?s @ [list_request ''e2e-test'' pods_client pods ?l ?s]) = Inr page_a"
    by (simp add: test_list_request [of _ True "''''"] fake_server_first)
  have rows: "\<not> (isFirstRequest ?l \<and> length (Rows page_a) = 0)"
    by (simp add: page_a_def)
  have token: "Continue page_a \<noteq> ''''"
    by (simp add: page_a_def)
  have key: "ReadRune ?E (reads ?s) = Inr 0x6E"
    by (simp add: keys_def)
  have printed: "PrintObj ?E page_a = (fst (line_printer page_a), None)"
    by (simp add: line_printer_def)
  have second: "run_loop ?E ''e2e-test'' pods_client pods
        \<lparr>continueToken = ''fake-continue-token'', isFirstRequest = False\<rparr> s' =
      Some (Success,
        s'\<lparr>requests := requests s' @ [pods_request ''fake-continue-token''],
           Out := Out s' @ fst (line_printer table) @ newline @ ''--- End of list ---''
                    @ newline\<rparr>)"
    if "opts s' = head_options True ''''" for s'
    using test_last_page [OF that, of _ _ table "[0x6E]"] assms by simp
  show ?thesis
    using run_loop_prompt_accept [OF page rows printed token _ key]
    by (simp add: test_Run_enters_loop second page_a_token
        test_list_request [of _ True "''''"])
qed

subsection \<open>Later pages\<close>

text \<open>
  Claim C9. Only the first pass through the loop has \<^verbatim>\<open>isFirstRequest\<close> set: every
  pass that the loop goes on to has it cleared. In such a later pass a table of no
  rows is printed like any other and the pass ends as \<^const>\<open>after_page\<close> says: what is
  written after the output so far is the printed table followed by the end-of-list
  marker, the prompt or the token line, never the notice, and the pass returns,
  reads a rune or goes on to the next request by the token and the mode alone.
\<close>

theorem later_empty_page_is_printed:
  fixes s :: "'a world"
  assumes "\<not> isFirstRequest l"
    and "Do E (requests s @ [list_request ns c gvr l s]) = Inr table"
    and "Rows table = []" and "PrintObj E table = (printed, None)"
  shows
    "let l' = \<lparr>continueToken = Continue table, isFirstRequest = False\<rparr>;
         s1 = s\<lparr>requests := requests s @ [list_request ns c gvr l s], Out := Out s @ printed\<rparr>
     in iteration E ns c gvr l s = after_page E l' s1
      \<and> Out (snd (iteration E ns c gvr l s)) =
          Out s @ printed @
            (if Continue table = '''' then
               (if Interactive (opts s) then newline @ ''--- End of list ---'' @ newline
                else '''')
             else if Interactive (opts s) then newline @ ''--- [n] next page, [q] quit: ''
             else newline @ ''Continue Token: '' @ Continue table @ newline)
      \<and> fst (iteration E ns c gvr l s) =
          (if Continue table = '''' then Return Success
           else if Interactive (opts s) then
             (case ReadRune E (reads s) of
                Inl err \<Rightarrow> Return (Failure err)
              | Inr char \<Rightarrow> if char \<noteq> 0x6E then Return Success else NextIteration l')
           else Return Success)
      \<and> (\<forall>l0 (s0 :: 'a world) l1 s1.
            iteration E ns c gvr l0 s0 = (NextIteration l1, s1) \<longrightarrow> \<not> isFirstRequest l1)"
proof -
  let ?l' = "\<lparr>continueToken = Continue table, isFirstRequest = False\<rparr>"
  let ?s1 = "s\<lparr>requests := requests s @ [list_request ns c gvr l s], Out := Out s @ printed\<rparr>"
  have it: "iteration E ns c gvr l s = after_page E ?l' ?s1"
    using assms by (intro iteration_printed) simp_all
  have out: "Out (snd (after_page E ?l' ?s1)) =
          Out s @ printed @
            (if Continue table = '''' then
               (if Interactive (opts s) then newline @ ''--- End of list ---'' @ newline
                else '''')
             else if Interactive (opts s) then newline @ ''--- [n] next page, [q] quit: ''
             else newline @ ''Continue Token: '' @ Continue table @ newline)"
    by (simp add: after_page_def Let_def split: sum.splits)
  have ctl: "fst (after_page E ?l' ?s1) =
          (if Continue table = '''' then Return Success
           else if Interactive (opts s) then
             (case ReadRune E (reads s) of
                Inl err \<Rightarrow> Return (Failure err)
              | Inr char \<Rightarrow> if char \<noteq> 0x6E then Return Success else NextIteration ?l')
           else Return Success)"
    by (simp add: after_page_def Let_def split: sum.splits)
  show ?thesis
    unfolding Let_def
  proof (intro conjI allI impI)
    show "iteration E ns c gvr l s = after_page E ?l' ?s1"
      by (rule it)
    show "Out (snd (iteration E ns c gvr l s)) =
          Out s @ printed @
            (if Continue table = '''' then
               (if Interactive (opts s) then newline @ ''--- End of list ---'' @ newline
                else '''')
             else if Interactive (opts s) then newline @ ''--- [n] next page, [q] quit: ''
             else newline @ ''Continue Token: '' @ Continue table @ newline)"
      unfolding it by (rule out)
    show "fst (iteration E ns c gvr l s) =
          (if Continue table = '''' then Return Success
           else if Interactive (opts s) then
             (case ReadRune E (reads s) of
                Inl err \<Rightarrow> Return (Failure err)
              | Inr char \<Rightarrow> if char \<noteq> 0x6E then Return Success else NextIteration ?l')
           else Return Success)"
      unfolding it by (rule ctl)
    show "\<not> isFirstRequest l1"
      if "iteration E ns c gvr l0 s0 = (NextIteration l1, s1)" for l0 l1 and s0 s1 :: "'a world"
      using that by (rule iteration_NextIteration)
  qed
qed

theorem later_empty_page_is_printed_witness:
  "Run (test_env [('''', Inr page_a), (''fake-continue-token'', Inr (empty_page ''''))] [0x6E])
       (start (head_options True '''')) =
     Some (Success,
       (start (head_options True ''''))
         \<lparr>requests := [pods_request '''', pods_request ''fake-continue-token''],
          Out := fst (line_printer page_a) @ newline @ ''--- [n] next page, [q] quit: ''
                   @ fst (line_printer (empty_page '''')) @ newline @ ''--- End of list ---''
                   @ newline,
          reads := 1, Stdout := newline\<rparr>)"
proof -
  let ?E = "test_env [('''', Inr page_a), (''fake-continue-token'', Inr (empty_page ''''))] [0x6E]"
  let ?s = "start (head_options True '''')"
  let ?l = "\<lparr>continueToken = '''', isFirstRequest = True\<rparr>"
  let ?l' = "\<lparr>continueToken = ''fake-continue-token'', isFirstRequest = False\<rparr>"
  let ?s' = "?s\<lparr>requests := [pods_request ''''],
               Out := fst (line_printer page_a) @ newline @ ''--- [n] next page, [q] quit: '',
               reads := 1, Stdout := newline\<rparr>"
  have page: "Do ?E (requests ?s @ [list_request ''e2e-test'' pods_client pods ?l ?s]) = Inr page_a"
    by (simp add: test_list_request [of _ True "''''"] fake_server_first)
  have rows: "\<not> (isFirstRequest ?l \<and> length (Rows page_a) = 0)"
    by (simp add: page_a_def)
  have token: "Continue page_a \<noteq> ''''"
    by (simp add: page_a_def)
  have key: "ReadRune ?E (reads ?s) = Inr 0x6E"
    by (simp add: keys_def)
  have printed: "PrintObj ?E table = (fst (line_printer table), None)" for table
    by (simp add: line_printer_def)
  have first: "Run ?E ?s = run_loop ?E ''e2e-test'' pods_client pods ?l' ?s'"
    using run_loop_prompt_accept [OF page rows printed token _ key]
    by (simp add: test_Run_enters_loop page_a_token test_list_request [of _ True "''''"])
  have req: "list_request ''e2e-test'' pods_client pods ?l' ?s' = pods_request ''fake-continue-token''"
    by (simp add: test_list_request [of _ True "''''"])
  have empty: "Do ?E (requests ?s' @ [list_request ''e2e-test'' pods_client pods ?l' ?s'])
      = Inr (empty_page '''')"
    using fake_server_last [of _ "[pods_request '''']" "''fake-continue-token''"]
    by (simp add: test_list_request [of _ True "''''"])
  have "iteration ?E ''e2e-test'' pods_client pods ?l' ?s' =
      (Return Success,
       ?s\<lparr>requests := [pods_request '''', pods_request ''fake-continue-token''],
          Out := fst (line_printer page_a) @ newline @ ''--- [n] next page, [q] quit: ''
                   @ fst (line_printer (empty_page '''')) @ newline @ ''--- End of list ---''
                   @ newline,
          reads := 1, Stdout := newline\<rparr>)"
    using later_empty_page_is_printed
      [where E = ?E and s = ?s' and l = ?l' and ns = "''e2e-test''" and c = pods_client
         and gvr = pods and table = "empty_page ''''"
         and printed = "fst (line_printer (empty_page ''''))", OF _ empty _ printed]
    by (simp add: Let_def test_list_request [of _ True "''''"] empty_page_def
        after_page_no_token)
  then show ?thesis
    using first by (simp add: run_loop_Return)
qed

subsection \<open>The options\<close>

lemma run_loop_frame:
  fixes s :: "'a world"
  assumes "run_loop E ns c gvr l s = Some y"
  shows "opts (snd y) = opts s \<and>
     (\<exists>new. requests (snd y) = requests s @ new \<and>
        (\<forall>req \<in> set new. req_Namespace req = ns
           \<and> lo_Limit (req_params req) = Limit (opts s)
           \<and> lo_LabelSelector (req_params req) = Selector (opts s)))"
proof -
  let ?P = "\<lambda>(E::env) ns (c::RESTClient) (gvr::GroupVersionResource) (l::locals)
              (s::'a world) (y::outcome \<times> 'a world).
     opts (snd y) = opts s \<and>
     (\<exists>new. requests (snd y) = requests s @ new \<and>
        (\<forall>req \<in> set new. req_Namespace req = ns
           \<and> lo_Limit (req_params req) = Limit (opts s)
           \<and> lo_LabelSelector (req_params req) = Selector (opts s)))"
  show ?thesis
  proof (rule run_loop.raw_induct [where P = ?P, OF _ assms])
    fix loop E' ns' c' gvr' l' and s' :: "'a world" and y'
    assume IH: "\<And>E ns c gvr l s y. loop E ns c gvr l s = Some y \<Longrightarrow> ?P E ns c gvr l s y"
      and body: "(case iteration E' ns' c' gvr' l' s' of
                    (Return r, s'') \<Rightarrow> Some (r, s'')
                  | (NextIteration l'', s'') \<Rightarrow> loop E' ns' c' gvr' l'' s'') = Some y'"
    obtain ctl s1 where it: "iteration E' ns' c' gvr' l' s' = (ctl, s1)"
      by (cases "iteration E' ns' c' gvr' l' s'")
    note fr = iteration_frame [OF it]
    have req: "req_Namespace (list_request ns' c' gvr' l' s') = ns'
             \<and> lo_Limit (req_params (list_request ns' c' gvr' l' s')) = Limit (opts s')
             \<and> lo_LabelSelector (req_params (list_request ns' c' gvr' l' s')) = Selector (opts s')"
      by (simp add: list_request_def)
    show "?P E' ns' c' gvr' l' s' y'"
    proof (cases ctl)
      case (Return r)
      with body it have "y' = (r, s1)" by simp
      with fr req show ?thesis by auto
    next
      case (NextIteration l'')
      with body it have "loop E' ns' c' gvr' l'' s1 = Some y'" by simp
      from IH [OF this] fr req show ?thesis by auto
    qed
  qed
qed

text \<open>
  Claim C10. When \<^const>\<open>Run\<close> returns, with \<^verbatim>\<open>nil\<close> or with an error, the options are
  what they were before the call, field for field and with them all that the record
  is extended by; and every request the run has sent carries the limit, the label
  selector and the namespace of these options, the namespace being empty when all
  namespaces are asked for.
\<close>

theorem Run_leaves_options:
  fixes s :: "'a world"
  assumes "Run E s = Some (r, s')"
  shows "opts s' = opts s
       \<and> (\<exists>new. requests s' = requests s @ new
            \<and> (\<forall>req \<in> set new.
                  lo_Limit (req_params req) = Limit (opts s)
                \<and> lo_LabelSelector (req_params req) = Selector (opts s)
                \<and> req_Namespace req =
                    (if AllNamespaces (opts s) then '''' else Namespace (opts s))))"
proof (cases "GetResourceGVR E (opts s)")
  case (Inl err)
  with assms show ?thesis by (simp add: Run_def)
next
  case gvr: (Inr gvr)
  show ?thesis
  proof (cases "RESTConfig (opts s)")
    case None
    with assms gvr show ?thesis by (simp add: Run_def)
  next
    case config: (Some config)
    show ?thesis
    proof (cases "NewRestClient E config (gvr_GroupVersion gvr)")
      case (Inl err)
      with assms gvr config show ?thesis by (simp add: Run_def)
    next
      case (Inr restClient)
      with assms gvr config have
        "run_loop E (if AllNamespaces (opts s) then '''' else Namespace (opts s)) restClient gvr
           \<lparr>continueToken = ContinueToken (opts s), isFirstRequest = True\<rparr> s = Some (r, s')"
        by (simp add: Run_def)
      from run_loop_frame [OF this] show ?thesis by auto
    qed
  qed
qed

theorem Run_leaves_options_witness:
  "Run (test_env [('''', Inr page_a), (''fake-continue-token'', Inr page_b)] [0x6E])
       (start (head_options True '''')) =
     Some (Success,
       (start (head_options True ''''))
         \<lparr>requests := [pods_request '''', pods_request ''fake-continue-token''],
          Out := fst (line_printer page_a) @ newline @ ''--- [n] next page, [q] quit: ''
                   @ fst (line_printer page_b) @ newline @ ''--- End of list ---'' @ newline,
          reads := 1, Stdout := newline\<rparr>)
 \<and> opts ((start (head_options True ''''))
         \<lparr>requests := [pods_request '''', pods_request ''fake-continue-token''],
          Out := fst (line_printer page_a) @ newline @ ''--- [n] next page, [q] quit: ''
                   @ fst (line_printer page_b) @ newline @ ''--- End of list ---'' @ newline,
          reads := 1, Stdout := newline\<rparr>) = head_options True ''''
 \<and> map (\<lambda>req. (lo_Limit (req_params req), lo_LabelSelector (req_params req), req_Namespace req))
       [pods_request '''', pods_request ''fake-continue-token'']
     = [(5, ''app=web'', ''e2e-test''), (5, ''app=web'', ''e2e-test'')]"
proof -
  have run: "Run (test_env [('''', Inr page_a), (''fake-continue-token'', Inr page_b)] [0x6E])
       (start (head_options True '''')) =
     Some (Success,
       (start (head_options True ''''))
         \<lparr>requests := [pods_request '''', pods_request ''fake-continue-token''],
          Out := fst (line_printer page_a) @ newline @ ''--- [n] next page, [q] quit: ''
                   @ fst (line_printer page_b) @ newline @ ''--- End of list ---'' @ newline,
          reads := 1, Stdout := newline\<rparr>)"
    by (rule test_two_pages) (simp add: page_b_def)
  from Run_leaves_options [OF run] run show ?thesis
    by simp
qed


end
